theory Spec2Isabelle
  imports Complex_Main
begin

section \<open>Values, errors and the module namespace\<close>

text \<open>
  The module \<^verbatim>\<open>distkeras/distributed_models.py\<close> is embedded function by function.
  A weight tensor is a one-dimensional array of reals (its shape is its length); a
  parameter set is the list of tensors that \<^verbatim>\<open>get_weights()\<close> returns. Floating-point
  rounding is not modelled.
\<close>

type_synonym tensor = "real list"

definition shapes :: "tensor list \<Rightarrow> nat list" where
  "shapes ws = map length ws"

datatype error =
    NameError string
  | AttributeError string
  | TypeError string
  | KeyError string
  | IndexError
  | ZeroDivisionError
  | UnpicklingError
  | ValueError string
  | NotImplementedError
  | IOError string

text \<open>
  Python values that the module stores in attributes without looking inside them, or
  that it subscripts (\<^verbatim>\<open>self.train_config['nb_epoch']\<close>).
\<close>

datatype pyval =
    PNone
  | PInt int
  | PStr string
  | PDict "(string \<times> pyval) list"
  | PModule string
  | PFunction string
  | PClass string

text \<open>
  The names bound at module level: by the import statements of lines 11 to 20, by the
  definitions of lines 26, 33, 103 and 136, and the helpers that the two star imports of
  lines 8 and 9 supply (\<^verbatim>\<open>distkeras.networking\<close> and \<^verbatim>\<open>distkeras.optimizers\<close>; the module
  calls \<^verbatim>\<open>determine_host_address\<close>, \<^verbatim>\<open>get_master_weights\<close>, \<^verbatim>\<open>send_master_model_deltas\<close>,
  \<^verbatim>\<open>subtract_params\<close> and \<^verbatim>\<open>tee\<close> without importing them by name). Every other global
  name is unbound, and reading it raises \<^verbatim>\<open>NameError\<close>.
\<close>

definition module_globals :: "(string \<times> pyval) list" where
  "module_globals =
    [(''determine_host_address'', PFunction ''determine_host_address''),
     (''get_master_weights'', PFunction ''get_master_weights''),
     (''send_master_model_deltas'', PFunction ''send_master_model_deltas''),
     (''subtract_params'', PFunction ''subtract_params''),
     (''tee'', PFunction ''tee''),
     (''model_from_json'', PFunction ''model_from_json''),
     (''slice_X'', PFunction ''slice_X''),
     (''Flask'', PClass ''Flask''),
     (''request'', PModule ''request''),
     (''Process'', PClass ''Process''),
     (''Lock'', PFunction ''Lock''),
     (''pickle'', PModule ''cPickle''),
     (''np'', PModule ''numpy''),
     (''to_simple_rdd'', PFunction ''to_simple_rdd''),
     (''DistributedModel'', PClass ''DistributedModel''),
     (''SparkModel'', PClass ''SparkModel''),
     (''SparkWorker'', PClass ''SparkWorker'')]"

definition load_global :: "string \<Rightarrow> error + pyval" where
  "load_global n =
    (case map_of module_globals n of
       None \<Rightarrow> Inl (NameError n)
     | Some v \<Rightarrow> Inr v)"

text \<open>Attribute access on a value of \<^typ>\<open>pyval\<close>: only the pickle module has attributes
  that this file uses.\<close>

fun py_getattr :: "pyval \<Rightarrow> string \<Rightarrow> error + pyval" where
  "py_getattr (PModule m) a =
     (if m = ''cPickle'' \<and> (a = ''dumps'' \<or> a = ''loads'')
      then Inr (PFunction (m @ ''.'' @ a))
      else Inl (AttributeError a))"
| "py_getattr v a = Inl (AttributeError a)"

text \<open>Subscription \<^verbatim>\<open>v[k]\<close> with a string key.\<close>

fun py_getitem :: "pyval \<Rightarrow> string \<Rightarrow> error + pyval" where
  "py_getitem (PDict d) k =
     (case map_of d k of None \<Rightarrow> Inl (KeyError k) | Some v \<Rightarrow> Inr v)"
| "py_getitem (PStr s) k = Inl (TypeError ''string indices must be integers'')"
| "py_getitem v k = Inl (TypeError ''object is not subscriptable'')"

text \<open>Instance attributes that no method of the class binds live in a dictionary of
  their own; reading a name that is not there raises \<^verbatim>\<open>AttributeError\<close>.\<close>

definition getattr_other :: "(string \<times> pyval) list \<Rightarrow> string \<Rightarrow> error + pyval" where
  "getattr_other d a =
    (case map_of d a of None \<Rightarrow> Inl (AttributeError a) | Some v \<Rightarrow> Inr v)"

section \<open>The collaborators: Keras model, optimizer, pickle\<close>

text \<open>
  The Keras model is an opaque object; the module reads its weights, its constraints,
  its configuration and its JSON description.
\<close>

record keras_model =
  km_weights :: "tensor list"
  km_constraints :: "string list"
  km_config :: string
  km_json :: string

definition get_weights :: "keras_model \<Rightarrow> tensor list" where
  "get_weights m = km_weights m"

definition set_weights :: "tensor list \<Rightarrow> keras_model \<Rightarrow> keras_model" where
  "set_weights ws m = m\<lparr>km_weights := ws\<rparr>"

text \<open>
  The optimizer is the argument of the constructor. \<^verbatim>\<open>get_updates(weights, delta,
  constraints)\<close> returns the new weights or raises; an update rule with accumulator state
  of its own is outside this model.
\<close>

record optimizer_obj =
  get_updates :: "tensor list \<Rightarrow> tensor list \<Rightarrow> string list \<Rightarrow> error + tensor list"
  opt_config :: string

text \<open>A request body either unpickles to a parameter set or does not unpickle.\<close>

datatype body = Pickle "tensor list" | Malformed "nat list"

fun pickle_loads :: "body \<Rightarrow> error + tensor list" where
  "pickle_loads (Pickle ws) = Inr ws"
| "pickle_loads (Malformed bs) = Inl UnpicklingError"

text \<open>The call \<^verbatim>\<open>m.dumps(ws)\<close> on whatever value the name before the dot holds.\<close>

definition call_dumps :: "pyval \<Rightarrow> tensor list \<Rightarrow> error + body" where
  "call_dumps m ws =
    (case py_getattr m ''dumps'' of
       Inl e \<Rightarrow> Inl e
     | Inr f \<Rightarrow> Inr (Pickle ws))"

section \<open>DistributedModel\<close>

datatype process = Process (alive: bool)

record distributed_model =
  master_model :: keras_model
  weights :: "tensor list"
  master_address :: string
  master_port :: int
  optimizer :: optimizer_obj
  mutex :: bool
  app :: "string option"
  server :: "process option"
  other_attrs :: "(string \<times> pyval) list"

text \<open>
  \<^verbatim>\<open>__init__\<close> (lines 35 to 41). \<^verbatim>\<open>determine_host_address()\<close> is not in this file; its
  result is the parameter \<open>host\<close>. The attributes \<^verbatim>\<open>app\<close> and \<^verbatim>\<open>server\<close> are bound later,
  by \<^verbatim>\<open>service\<close> and \<^verbatim>\<open>start_server\<close>.
\<close>

definition DistributedModel_init ::
  "string \<Rightarrow> keras_model \<Rightarrow> optimizer_obj \<Rightarrow> int \<Rightarrow> distributed_model" where
  "DistributedModel_init host keras_model opt port =
    \<lparr> master_model = keras_model,
      weights = get_weights keras_model,
      master_address = host,
      master_port = port,
      optimizer = opt,
      mutex = False,
      app = None,
      server = None,
      other_attrs = [] \<rparr>"

text \<open>
  \<^verbatim>\<open>with self.mutex:\<close> acquires the lock, runs the body and releases the lock, also when the
  body raises. A request that finds the lock held does not return while it is held: the
  value is \<open>None\<close>.
\<close>

definition with_mutex ::
  "(('a distributed_model_scheme) \<Rightarrow> 'r \<times> ('a distributed_model_scheme)) \<Rightarrow>
   ('a distributed_model_scheme) \<Rightarrow> ('r \<times> ('a distributed_model_scheme)) option" where
  "with_mutex f self =
    (if mutex self then None
     else (case f (self\<lparr>mutex := True\<rparr>) of
             (r, s') \<Rightarrow> Some (r, s'\<lparr>mutex := False\<rparr>)))"

text \<open>
  \<^verbatim>\<open>route_parameters\<close> (lines 51 to 56): under the lock,
  \<^verbatim>\<open>picle.dumps(self.master_model.get_weights())\<close>. Python evaluates the callee
  \<^verbatim>\<open>picle.dumps\<close> before the argument.
\<close>

definition route_parameters ::
  "('a distributed_model_scheme) \<Rightarrow> ((error + body) \<times> ('a distributed_model_scheme)) option" where
  "route_parameters self =
    with_mutex (\<lambda>s.
      ((case load_global ''picle'' of
          Inl e \<Rightarrow> Inl e
        | Inr m \<Rightarrow> call_dumps m (get_weights (master_model s))), s)) self"

text \<open>
  \<^verbatim>\<open>update_parameters\<close> (lines 58 to 64): the body is unpickled before the lock is taken;
  under the lock the optimizer computes the new weights from \<^verbatim>\<open>self.weights\<close>, the delta
  and the model's constraints, and the result is bound to \<^verbatim>\<open>self.weights\<close>. The function
  has no return statement: it returns \<^verbatim>\<open>None\<close>.
\<close>

datatype view_result = ReturnsNone | ReturnsBody body

definition update_parameters ::
  "body \<Rightarrow> ('a distributed_model_scheme) \<Rightarrow>
   ((error + view_result) \<times> ('a distributed_model_scheme)) option" where
  "update_parameters data self =
    (case pickle_loads data of
       Inl e \<Rightarrow> Some (Inl e, self)
     | Inr delta \<Rightarrow>
         with_mutex (\<lambda>s.
           (let constraints = km_constraints (master_model s) in
            case get_updates (optimizer s) (weights s) delta constraints of
              Inl e \<Rightarrow> (Inl e, s)
            | Inr new \<Rightarrow> (Inr ReturnsNone, s\<lparr>weights := new\<rparr>))) self)"

text \<open>
  The Flask application of \<^verbatim>\<open>service\<close> (lines 45 to 69) dispatches a request to the view
  registered for its path and method. An exception raised by a view, and a view that
  returns \<^verbatim>\<open>None\<close>, are answered with status 500; the application goes on serving.
\<close>

datatype request = Request (req_method: string) (req_path: string) (req_data: body)

datatype response = Response (status: nat) (resp_body: "body option")

definition to_response :: "error + view_result \<Rightarrow> response" where
  "to_response r =
    (case r of
       Inl e \<Rightarrow> Response 500 None
     | Inr ReturnsNone \<Rightarrow> Response 500 None
     | Inr (ReturnsBody b) \<Rightarrow> Response 200 (Some b))"

definition handle ::
  "request \<Rightarrow> ('a distributed_model_scheme) \<Rightarrow>
   (response \<times> ('a distributed_model_scheme)) option" where
  "handle rq self =
    (if req_path rq = ''/parameters'' then
       (if req_method rq = ''GET'' then
          map_option (\<lambda>(r, s). (to_response (map_sum id ReturnsBody r), s))
            (route_parameters self)
        else Some (Response 405 None, self))
     else if req_path rq = ''/update'' then
       (if req_method rq = ''POST'' then
          map_option (\<lambda>(r, s). (to_response r, s)) (update_parameters (req_data rq) self)
        else Some (Response 405 None, self))
     else Some (Response 404 None, self))"

text \<open>\<^verbatim>\<open>service\<close> binds \<^verbatim>\<open>self.app\<close> and runs the application; \<^verbatim>\<open>start_server\<close> and
  \<^verbatim>\<open>stop_server\<close> (lines 73 to 79) start and terminate the serving process.\<close>

definition service :: "('a distributed_model_scheme) \<Rightarrow> ('a distributed_model_scheme)" where
  "service self = self\<lparr>app := Some ''distkeras.distributed_models''\<rparr>"

definition start_server :: "('a distributed_model_scheme) \<Rightarrow> ('a distributed_model_scheme)" where
  "start_server self = self\<lparr>server := Some (Process True)\<rparr>"

definition stop_server ::
  "('a distributed_model_scheme) \<Rightarrow> error + ('a distributed_model_scheme)" where
  "stop_server self =
    (case server self of
       None \<Rightarrow> Inl (AttributeError ''server'')
     | Some p \<Rightarrow> Inr (self\<lparr>server := Some (Process False)\<rparr>))"

text \<open>
  \<^verbatim>\<open>get_config\<close> (lines 81 to 87): the model's configuration, the optimizer's
  configuration, then \<^verbatim>\<open>self.mode\<close>.
\<close>

definition get_config ::
  "('a distributed_model_scheme) \<Rightarrow> error + (string \<times> pyval) list" where
  "get_config self =
    (let model_config = [];
         model_config = model_config @ [(''model'', PStr (km_config (master_model self)))];
         model_config = model_config @ [(''optimizer'', PStr (opt_config (optimizer self)))]
     in case getattr_other (other_attrs self) ''mode'' of
          Inl e \<Rightarrow> Inl e
        | Inr v \<Rightarrow> Inr (model_config @ [(''mode'', v)]))"

text \<open>\<^verbatim>\<open>get_master_url\<close> (lines 98 to 99); the backquotes are \<^verbatim>\<open>repr\<close> of the port.\<close>

fun digits :: "nat \<Rightarrow> string" where
  "digits n = (if n < 10 then [char_of (48 + n)] else digits (n div 10) @ [char_of (48 + n mod 10)])"

declare digits.simps [simp del]

definition repr_int :: "int \<Rightarrow> string" where
  "repr_int i = (if i < 0 then ''-'' @ digits (nat (- i)) else digits (nat i))"

definition get_master_url :: "('a distributed_model_scheme) \<Rightarrow> string" where
  "get_master_url self = master_address self @ '':'' @ repr_int (master_port self)"

text \<open>\<^verbatim>\<open>DistributedModel.train\<close> (lines 95 to 96).\<close>

definition DistributedModel_train :: "pyval \<Rightarrow> distributed_model \<Rightarrow> error + distributed_model" where
  "DistributedModel_train parameters self = Inl NotImplementedError"

text \<open>\<^verbatim>\<open>predict\<close> and \<^verbatim>\<open>predict_classes\<close> (lines 89 to 93) pass the call to the model;
  \<open>p\<close> is the model's own method.\<close>

definition predict ::
  "(keras_model \<Rightarrow> 'd \<Rightarrow> 'r) \<Rightarrow> ('a distributed_model_scheme) \<Rightarrow> 'd \<Rightarrow> 'r" where
  "predict p self data = p (master_model self) data"

definition predict_classes ::
  "(keras_model \<Rightarrow> 'd \<Rightarrow> 'r) \<Rightarrow> ('a distributed_model_scheme) \<Rightarrow> 'd \<Rightarrow> 'r" where
  "predict_classes p self data = p (master_model self) data"

section \<open>Effects of the worker and the coordinator\<close>

text \<open>
  A worker and the coordinator talk to the parameter server over the network and print.
  The state of the network is a value of an arbitrary type \<open>'n\<close>; beside it runs the log
  of what was done, in order. A computation returns a value or the exception it
  raised, and the world it left behind.
\<close>

datatype event =
    Fetch string
  | SetWeights "tensor list"
  | TrainOnBatch "real list list" "real list list"
  | Submit "tensor list" string
  | Print string

type_synonym 'n world = "'n \<times> event list"

type_synonym ('a, 'n) prog = "'n world \<Rightarrow> (error + 'a) \<times> 'n world"

definition ret :: "'a \<Rightarrow> ('a, 'n) prog" where
  "ret x w = (Inr x, w)"

definition lift :: "error + 'a \<Rightarrow> ('a, 'n) prog" where
  "lift r w = (r, w)"

definition bnd :: "('a, 'n) prog \<Rightarrow> ('a \<Rightarrow> ('b, 'n) prog) \<Rightarrow> ('b, 'n) prog" where
  "bnd m f w =
    (case m w of
       (Inl e, w') \<Rightarrow> (Inl e, w')
     | (Inr x, w') \<Rightarrow> f x w')"

definition emit :: "event \<Rightarrow> (unit, 'n) prog" where
  "emit ev w = (Inr (), (fst w, snd w @ [ev]))"

text \<open>
  The functions of \<^verbatim>\<open>distkeras.networking\<close> and of Keras that the worker and the coordinator
  call are parameters: \<^verbatim>\<open>get_master_weights(url)\<close>, \<^verbatim>\<open>send_master_model_deltas(deltas, url)\<close>,
  \<^verbatim>\<open>subtract_params(p1, p2)\<close>, \<^verbatim>\<open>model_from_json\<close>, \<^verbatim>\<open>model.compile\<close> and
  \<^verbatim>\<open>model.train_on_batch\<close>.
\<close>

record 'n worker_env =
  get_master_weights :: "string \<Rightarrow> 'n \<Rightarrow> (error + tensor list) \<times> 'n"
  send_master_model_deltas :: "tensor list \<Rightarrow> string \<Rightarrow> 'n \<Rightarrow> (error + unit) \<times> 'n"
  subtract_params :: "tensor list \<Rightarrow> tensor list \<Rightarrow> error + tensor list"
  model_from_json :: "pyval \<Rightarrow> error + keras_model"
  compile_model :: "pyval \<Rightarrow> pyval \<Rightarrow> keras_model \<Rightarrow> error + keras_model"
  train_on_batch :: "real list list \<Rightarrow> real list list \<Rightarrow> keras_model \<Rightarrow> error + keras_model"

definition on_net :: "('n \<Rightarrow> (error + 'a) \<times> 'n) \<Rightarrow> ('a, 'n) prog" where
  "on_net f w = (case f (fst w) of (r, n') \<Rightarrow> (r, (n', snd w)))"

definition fetch_weights :: "('n, 'e) worker_env_scheme \<Rightarrow> string \<Rightarrow> (tensor list, 'n) prog" where
  "fetch_weights env url = bnd (emit (Fetch url)) (\<lambda>_. on_net (get_master_weights env url))"

definition send_deltas ::
  "('n, 'e) worker_env_scheme \<Rightarrow> tensor list \<Rightarrow> string \<Rightarrow> (unit, 'n) prog" where
  "send_deltas env deltas url =
    bnd (emit (Submit deltas url)) (\<lambda>_. on_net (send_master_model_deltas env deltas url))"

section \<open>SparkWorker\<close>

text \<open>
  \<^verbatim>\<open>__init__\<close> (lines 138 to 144) binds five attributes; \<^verbatim>\<open>train_config\<close> receives the
  argument \<^verbatim>\<open>frequency\<close>, and the argument \<^verbatim>\<open>train_config\<close> is dropped.
\<close>

record spark_worker =
  w_json_model :: string
  w_optimizer :: optimizer_obj
  w_loss :: pyval
  w_train_config :: pyval
  w_master_url :: string
  w_other_attrs :: "(string \<times> pyval) list"

definition SparkWorker_init ::
  "string \<Rightarrow> optimizer_obj \<Rightarrow> pyval \<Rightarrow> pyval \<Rightarrow> pyval \<Rightarrow> string \<Rightarrow> spark_worker" where
  "SparkWorker_init json_model opt loss train_config frequency master_url =
    \<lparr> w_json_model = json_model,
      w_optimizer = opt,
      w_loss = loss,
      w_train_config = frequency,
      w_master_url = master_url,
      w_other_attrs = [] \<rparr>"

text \<open>A record of the partition is a pair of a feature row and a label row.\<close>

type_synonym sample = "real list \<times> real list"

text \<open>\<^verbatim>\<open>x_train.size\<close> of the array built from rows of one length, and \<^verbatim>\<open>len(x_train[0])\<close>.\<close>

definition np_size :: "real list list \<Rightarrow> nat" where
  "np_size xs = (case xs of [] \<Rightarrow> 0 | x # _ \<Rightarrow> length xs * length x)"

definition first_row_len :: "real list list \<Rightarrow> error + nat" where
  "first_row_len xs = (case xs of [] \<Rightarrow> Inl IndexError | x # _ \<Rightarrow> Inr (length x))"

definition as_int :: "pyval \<Rightarrow> error + int" where
  "as_int v = (case v of PInt i \<Rightarrow> Inr i | _ \<Rightarrow> Inl (TypeError ''an integer is required''))"

text \<open>\<^verbatim>\<open>int(np.ceil(n / float(batch_size)))\<close> of line 161.\<close>

definition ceil_div :: "nat \<Rightarrow> int \<Rightarrow> error + int" where
  "ceil_div n b = (if b = 0 then Inl ZeroDivisionError else Inr \<lceil>real n / real_of_int b\<rceil>)"

text \<open>\<^verbatim>\<open>range(0, k)\<close> as a list of integers.\<close>

definition py_range :: "int \<Rightarrow> int list" where
  "py_range k = map int [0 ..< nat k]"

text \<open>\<^verbatim>\<open>np.arange(n)[a:b]\<close>: a slice clips its bounds, and a negative bound counts from
  the end.\<close>

definition slice_bound :: "nat \<Rightarrow> int \<Rightarrow> nat" where
  "slice_bound n i = (if i < 0 then nat (max 0 (int n + i)) else min n (nat i))"

definition py_slice :: "nat \<Rightarrow> int \<Rightarrow> int \<Rightarrow> nat list" where
  "py_slice n a b = [slice_bound n a ..< slice_bound n b]"

text \<open>\<^verbatim>\<open>slice_X(X, ids)\<close> on an array is \<^verbatim>\<open>X[ids]\<close>: the rows at the indices, or
  \<^verbatim>\<open>IndexError\<close> when an index is out of bounds.\<close>

definition slice_X :: "'a list \<Rightarrow> nat list \<Rightarrow> error + 'a list" where
  "slice_X X ids =
    (if list_all (\<lambda>i. i < length X) ids then Inr (map (\<lambda>i. X ! i) ids) else Inl IndexError)"

text \<open>The locals that lines 155 to 163 bind and the rest of \<^verbatim>\<open>train\<close> reads.\<close>

record train_locals =
  l_model :: keras_model
  l_nb_epoch :: pyval
  l_batch_size :: int
  l_nb_train_sample :: nat
  l_batches :: "(int \<times> int) list"

definition bind_e :: "error + 'a \<Rightarrow> ('a \<Rightarrow> error + 'b) \<Rightarrow> error + 'b" where
  "bind_e r f = (case r of Inl e \<Rightarrow> Inl e | Inr x \<Rightarrow> f x)"

text \<open>
  Lines 155 to 163. The names \<^verbatim>\<open>json_model\<close>, \<^verbatim>\<open>solf\<close> and \<^verbatim>\<open>nb_batch\<close> are read as
  globals; line 161 binds \<^verbatim>\<open>np_batch\<close>.
\<close>

definition train_setup ::
  "('n, 'e) worker_env_scheme \<Rightarrow> spark_worker \<Rightarrow> real list list \<Rightarrow> error + train_locals" where
  "train_setup env self x_train =
    bind_e (load_global ''json_model'') (\<lambda>json_model.
    bind_e (model_from_json env json_model) (\<lambda>model.
    bind_e (load_global ''solf'') (\<lambda>solf.
    bind_e (py_getattr solf ''optimizer'') (\<lambda>opt.
    bind_e (compile_model env opt (w_loss self) model) (\<lambda>model.
    bind_e (py_getitem (w_train_config self) ''nb_epoch'') (\<lambda>nb_epoch.
    bind_e (py_getitem (w_train_config self) ''batch_size'') (\<lambda>batch_size.
    bind_e (first_row_len x_train) (\<lambda>nb_train_sample.
    bind_e (as_int batch_size) (\<lambda>batch_size.
    bind_e (ceil_div nb_train_sample batch_size) (\<lambda>np_batch.
    bind_e (load_global ''nb_batch'') (\<lambda>nb_batch.
    bind_e (as_int nb_batch) (\<lambda>nb_batch.
      Inr \<lparr> l_model = model,
            l_nb_epoch = nb_epoch,
            l_batch_size = batch_size,
            l_nb_train_sample = nb_train_sample,
            l_batches = map (\<lambda>i. (i * batch_size,
                                   min (int nb_train_sample) ((i + 1) * batch_size)))
                            (py_range nb_batch) \<rparr>))))))))))))"

text \<open>Lines 179 to 182: the test compares the lengths of the two lists of tensors.\<close>

definition compute_deltas ::
  "(tensor list \<Rightarrow> tensor list \<Rightarrow> error + tensor list) \<Rightarrow>
   tensor list \<Rightarrow> tensor list \<Rightarrow> error + tensor list" where
  "compute_deltas sub weights_before weights_after =
    (if length weights_before = length weights_after
     then sub weights_before weights_after
     else Inr weights_after)"

text \<open>Lines 168 to 184, the body of the loop over the batches.\<close>

definition train_batch ::
  "('n, 'e) worker_env_scheme \<Rightarrow> spark_worker \<Rightarrow> real list list \<Rightarrow> real list list \<Rightarrow>
   nat \<Rightarrow> int \<times> int \<Rightarrow> keras_model \<Rightarrow> (keras_model, 'n) prog" where
  "train_batch env self x_train y_train nb_train_sample batch model =
    bnd (fetch_weights env (w_master_url self)) (\<lambda>weights_before.
    bnd (if length weights_before > 0
         then bnd (emit (SetWeights weights_before))
                  (\<lambda>_. ret (set_weights weights_before model))
         else ret model) (\<lambda>model.
    let batch_ids = py_slice nb_train_sample (fst batch) (snd batch) in
    bnd (lift (slice_X x_train batch_ids)) (\<lambda>X.
    bnd (lift (slice_X y_train batch_ids)) (\<lambda>y.
    bnd (emit (TrainOnBatch X y)) (\<lambda>_.
    bnd (lift (train_on_batch env X y model)) (\<lambda>model.
    let weights_after = get_weights model in
    bnd (lift (compute_deltas (subtract_params env) weights_before weights_after)) (\<lambda>deltas.
    bnd (send_deltas env deltas (w_master_url self)) (\<lambda>_.
      ret model))))))))"

text \<open>Line 167, the loop over the batches; the local model is carried from batch to
  batch.\<close>

fun train_batches ::
  "('n, 'e) worker_env_scheme \<Rightarrow> spark_worker \<Rightarrow> real list list \<Rightarrow> real list list \<Rightarrow>
   nat \<Rightarrow> (int \<times> int) list \<Rightarrow> keras_model \<Rightarrow> (keras_model, 'n) prog" where
  "train_batches env self x_train y_train n [] model w = ret model w"
| "train_batches env self x_train y_train n (b # bs) model w =
     bnd (train_batch env self x_train y_train n b model)
         (train_batches env self x_train y_train n bs) w"

text \<open>Lines 165 and 166, the loop over the epochs with its guard
  \<^verbatim>\<open>x_train.shape[0] > batch_size\<close>.\<close>

fun train_epochs ::
  "('n, 'e) worker_env_scheme \<Rightarrow> spark_worker \<Rightarrow> real list list \<Rightarrow> real list list \<Rightarrow>
   nat \<Rightarrow> (int \<times> int) list \<Rightarrow> int \<Rightarrow> nat \<Rightarrow> keras_model \<Rightarrow> (keras_model, 'n) prog" where
  "train_epochs env self x_train y_train n batches batch_size 0 model w = ret model w"
| "train_epochs env self x_train y_train n batches batch_size (Suc k) model w =
     bnd (if int (length x_train) > batch_size
          then train_batches env self x_train y_train n batches model
          else ret model)
         (train_epochs env self x_train y_train n batches batch_size k) w"

text \<open>
  Lines 164 to 188: the test of \<^verbatim>\<open>self.frequency\<close>, the two branches, and the
  \<^verbatim>\<open>yield []\<close> that ends the generator with one item, an empty list.
\<close>

definition unknown_frequency_message :: string where
  "unknown_frequency_message = [CHR 0x0A, CHR 0x0A, CHR 0x0A] @ ''Unknown frequency method.''"

datatype item = EmptyList

definition train_policy ::
  "('n, 'e) worker_env_scheme \<Rightarrow> spark_worker \<Rightarrow> real list list \<Rightarrow> real list list \<Rightarrow>
   train_locals \<Rightarrow> (item list, 'n) prog" where
  "train_policy env self x_train y_train l =
    bnd (lift (getattr_other (w_other_attrs self) ''frequency'')) (\<lambda>frequency.
    bnd (if frequency = PStr ''epoch''
         then bnd (lift (as_int (l_nb_epoch l))) (\<lambda>nb_epoch.
              bnd (train_epochs env self x_train y_train (l_nb_train_sample l) (l_batches l)
                     (l_batch_size l) (nat nb_epoch) (l_model l)) (\<lambda>_. ret ()))
         else emit (Print unknown_frequency_message)) (\<lambda>_.
      ret [EmptyList]))"

text \<open>
  \<^verbatim>\<open>train\<close> (lines 146 to 188) is a generator: the value is the list of the items it
  yields. The \<^verbatim>\<open>return\<close> of line 152 ends it with no item.
\<close>

definition train ::
  "('n, 'e) worker_env_scheme \<Rightarrow> spark_worker \<Rightarrow> sample list \<Rightarrow> (item list, 'n) prog" where
  "train env self data_iterator =
    bnd (lift (load_global ''tee'')) (\<lambda>tee.
    let x_train = map fst data_iterator;
        y_train = map snd data_iterator
    in if np_size x_train = 0 then ret []
       else bnd (lift (train_setup env self x_train))
                (train_policy env self x_train y_train))"

section \<open>SparkModel\<close>

text \<open>\<^verbatim>\<open>to_simple_rdd\<close> (lines 26 to 29) pairs features with labels.\<close>

definition to_simple_rdd :: "real list list \<Rightarrow> real list list \<Rightarrow> sample list" where
  "to_simple_rdd features labels = zip features labels"

text \<open>The data set is the list of its partitions. \<^verbatim>\<open>__init__\<close> (lines 105 to 111) calls
  the constructor of the super class and binds three more attributes.\<close>

record spark_model = distributed_model +
  spark_context :: string
  dataset_rdd :: "sample list list"
  num_workers :: int

definition SparkModel_init ::
  "string \<Rightarrow> string \<Rightarrow> sample list list \<Rightarrow> keras_model \<Rightarrow> optimizer_obj \<Rightarrow> int \<Rightarrow> int \<Rightarrow>
   spark_model" where
  "SparkModel_init host sc rdd keras_model opt nw port =
    distributed_model.extend (DistributedModel_init host keras_model opt port)
      \<lparr> spark_context = sc, dataset_rdd = rdd, num_workers = nw \<rparr>"

text \<open>The engine's \<^verbatim>\<open>repartition\<close> is one more parameter of the coordinator.\<close>

record 'n coordinator_env = "'n worker_env" +
  repartition :: "int \<Rightarrow> sample list list \<Rightarrow> error + sample list list"

text \<open>\<^verbatim>\<open>mapPartitions(f).collect()\<close> runs \<open>f\<close> on every partition and collects the items;
  here the partitions run one after the other, and the first exception ends the job.\<close>

fun map_partitions ::
  "(sample list \<Rightarrow> (item list, 'n) prog) \<Rightarrow> sample list list \<Rightarrow> (item list, 'n) prog" where
  "map_partitions f [] w = ret [] w"
| "map_partitions f (p # ps) w =
     bnd (f p) (\<lambda>out. bnd (map_partitions f ps) (\<lambda>outs. ret (out @ outs))) w"

text \<open>
  A method of the coordinator changes the object and the world, and may raise; the
  object keeps what was bound before the exception.
\<close>

type_synonym 'n coordinator_result = "(error + unit) \<times> spark_model \<times> 'n world"

text \<open>\<^verbatim>\<open>_train\<close> (lines 119 to 133).\<close>

definition SparkModel_train' ::
  "('n, 'e) coordinator_env_scheme \<Rightarrow> pyval \<Rightarrow> spark_model \<Rightarrow> 'n world \<Rightarrow>
   'n coordinator_result" where
  "SparkModel_train' env parameters self w =
    (let json_model = km_json (master_model self);
         master_url = get_master_url self
     in case getattr_other (other_attrs self) ''loss'' of
          Inl e \<Rightarrow> (Inl e, self, w)
        | Inr loss \<Rightarrow>
     (case getattr_other (other_attrs self) ''frequency'' of
          Inl e \<Rightarrow> (Inl e, self, w)
        | Inr frequency \<Rightarrow>
     (let worker = SparkWorker_init json_model (optimizer self) loss parameters frequency
                     master_url
      in case map_partitions (train env worker) (dataset_rdd self) w of
           (Inl e, w') \<Rightarrow> (Inl e, self, w')
         | (Inr outs, w') \<Rightarrow>
      (case fetch_weights env master_url w' of
           (Inl e, w'') \<Rightarrow> (Inl e, self, w'')
         | (Inr new_weights, w'') \<Rightarrow>
      (let self = (if length new_weights \<noteq> 0
                   then self\<lparr>master_model := set_weights new_weights (master_model self)\<rparr>
                   else self)
       in case stop_server self of
            Inl e \<Rightarrow> (Inl e, self, w'')
          | Inr self \<Rightarrow> (Inr (), self, w''))))))"

text \<open>\<^verbatim>\<open>train\<close> (lines 113 to 117).\<close>

definition SparkModel_train ::
  "('n, 'e) coordinator_env_scheme \<Rightarrow> pyval \<Rightarrow> spark_model \<Rightarrow> 'n world \<Rightarrow>
   'n coordinator_result" where
  "SparkModel_train env parameters self w =
    (let self = start_server self
     in case repartition env (num_workers self) (dataset_rdd self) of
          Inl e \<Rightarrow> (Inl e, self, w)
        | Inr rdd \<Rightarrow> SparkModel_train' env parameters (self\<lparr>dataset_rdd := rdd\<rparr>) w)"

section \<open>Update rule and difference of the specification\<close>

text \<open>
  Modelled from the spec: the additive UpdateRule of \<^verbatim>\<open>distkeras/optimizers.py\<close>, which is
  not among the sources. The specification asks of \<^verbatim>\<open>combine(current, delta)\<close> that it
  check that both have matching shapes and fail otherwise; the additive rule adds the
  delta to the current parameters elementwise.
\<close>

definition add_params :: "tensor list \<Rightarrow> tensor list \<Rightarrow> tensor list" where
  "add_params ws ds = map2 (map2 (+)) ws ds"

definition additive_rule :: optimizer_obj where
  "additive_rule =
    \<lparr> get_updates = (\<lambda>ws ds cs.
        if shapes ds = shapes ws then Inr (add_params ws ds)
        else Inl (ValueError ''shape mismatch'')),
      opt_config = ''additive'' \<rparr>"


text \<open>
  Modelled from the spec: \<^verbatim>\<open>subtract_params\<close> of \<^verbatim>\<open>distkeras/networking.py\<close>, which is not
  among the sources. The specification says that the difference-style Delta is the
  elementwise difference of the weights after the batch and the weights before it, and
  says so for weights of identical shapes only; on other arguments this difference
  raises.
\<close>

definition subtract_params_spec :: "tensor list \<Rightarrow> tensor list \<Rightarrow> error + tensor list" where
  "subtract_params_spec weights_before weights_after =
    (if shapes weights_before = shapes weights_after
     then Inr (map2 (map2 (\<lambda>b a. a - b)) weights_before weights_after)
     else Inl (ValueError ''shapes differ''))"

section \<open>Sequences of calls on a model object\<close>

text \<open>
  The methods of \<^verbatim>\<open>DistributedModel\<close>, and the state of the object after a call, whether
  the call returned or raised.
\<close>

datatype method_call =
    CallService
  | CallStartServer
  | CallStopServer
  | CallRouteParameters
  | CallUpdateParameters body
  | CallGetConfig
  | CallGetMasterUrl
  | CallPredict
  | CallPredictClasses

fun after_call ::
  "method_call \<Rightarrow> ('a distributed_model_scheme) \<Rightarrow> ('a distributed_model_scheme)" where
  "after_call CallService self = service self"
| "after_call CallStartServer self = start_server self"
| "after_call CallStopServer self =
     (case stop_server self of Inl e \<Rightarrow> self | Inr self' \<Rightarrow> self')"
| "after_call CallRouteParameters self =
     (case route_parameters self of None \<Rightarrow> self | Some (r, self') \<Rightarrow> self')"
| "after_call (CallUpdateParameters data) self =
     (case update_parameters data self of None \<Rightarrow> self | Some (r, self') \<Rightarrow> self')"
| "after_call c self = self"

text \<open>\<^verbatim>\<open>SparkModel\<close> inherits these methods and overrides \<^verbatim>\<open>train\<close>.\<close>

datatype 'n spark_call =
    Inherited method_call
  | CallTrain "'n coordinator_env" pyval

fun after_spark_call ::
  "'n spark_call \<Rightarrow> spark_model \<times> 'n world \<Rightarrow> spark_model \<times> 'n world" where
  "after_spark_call (Inherited c) (self, w) = (after_call c self, w)"
| "after_spark_call (CallTrain env parameters) (self, w) =
     snd (SparkModel_train env parameters self w)"

section \<open>Examples\<close>

definition example_model :: keras_model where
  "example_model =
    \<lparr> km_weights = [[1], [2]], km_constraints = [], km_config = ''dense'',
      km_json = ''{}'' \<rparr>"

definition example_server :: distributed_model where
  "example_server =
    service (start_server (DistributedModel_init ''10.0.0.1'' example_model additive_rule 5000))"



text \<open>The server is up when its process has been started and not terminated.\<close>

definition server_up :: "('a distributed_model_scheme) \<Rightarrow> bool" where
  "server_up self = (server self = Some (Process True))"

text \<open>
  A network that is the store of one server: a fetch reads it, a submission adds the
  delta to it. The local model of the example adds one to every weight in a training
  step.
\<close>

definition example_env :: "(tensor list) coordinator_env" where
  "example_env =
    \<lparr> get_master_weights = (\<lambda>url n. (Inr n, n)),
      send_master_model_deltas = (\<lambda>deltas url n. (Inr (), add_params n deltas)),
      subtract_params = subtract_params_spec,
      model_from_json = (\<lambda>j. Inr example_model),
      compile_model = (\<lambda>opt loss m. Inr m),
      train_on_batch = (\<lambda>X y m. Inr (m\<lparr>km_weights := map (map (\<lambda>v. v + 1)) (km_weights m)\<rparr>)),
      repartition = (\<lambda>k rdd. if k \<le> 0 then Inl (ValueError ''numPartitions'') else Inr rdd) \<rparr>"

definition example_config :: pyval where
  "example_config = PDict [(''nb_epoch'', PInt 2), (''batch_size'', PInt 1)]"

text \<open>A worker as the constructor builds it.\<close>

definition example_worker :: "pyval \<Rightarrow> spark_worker" where
  "example_worker frequency =
    SparkWorker_init ''{}'' additive_rule (PStr ''mse'') example_config frequency
      ''10.0.0.1:5000''"

definition example_partition :: "sample list" where
  "example_partition = [([1, 2], [0]), ([3, 4], [1])]"

definition example_spark_model :: spark_model where
  "example_spark_model =
    SparkModel_init ''10.0.0.1'' ''sc'' [example_partition, []] example_model additive_rule
      4 5000"

section \<open>Name lookups\<close>

lemma load_global_picle: "load_global ''picle'' = Inl (NameError ''picle'')"
  by (simp add: load_global_def module_globals_def)

lemma load_global_tee: "load_global ''tee'' = Inr (PFunction ''tee'')"
  by (simp add: load_global_def module_globals_def)

lemma load_global_json_model: "load_global ''json_model'' = Inl (NameError ''json_model'')"
  by (simp add: load_global_def module_globals_def)

section \<open>The two views of the server\<close>

lemma route_parameters_raises:
  "\<not> mutex s \<Longrightarrow> route_parameters s = Some (Inl (NameError ''picle''), s)"
  by (simp add: route_parameters_def with_mutex_def load_global_picle)



lemma update_parameters_applies:
  "\<not> mutex s \<Longrightarrow> pickle_loads d = Inr delta \<Longrightarrow>
   get_updates (optimizer s) (weights s) delta (km_constraints (master_model s)) = Inr new \<Longrightarrow>
   update_parameters d s = Some (Inr ReturnsNone, s\<lparr>weights := new\<rparr>)"
  by (simp add: update_parameters_def with_mutex_def)


lemma example_server_free: "\<not> mutex example_server"
  by (simp add: example_server_def service_def start_server_def DistributedModel_init_def)

lemma example_server_up: "server_up example_server"
  by (simp add: server_up_def example_server_def service_def start_server_def
        DistributedModel_init_def)

text \<open>
  Claim C1. The specification says that Fetch always succeeds while the server is up and
  returns the serialised parameters. On the running example server the view
  \<^verbatim>\<open>route_parameters\<close> raises \<^verbatim>\<open>NameError\<close> for the name \<^verbatim>\<open>picle\<close>, the lock is released,
  and the application answers the request with status 500 and no body.
\<close>

theorem fetch_raises_name_error:
  "server_up example_server \<and>
   route_parameters example_server = Some (Inl (NameError ''picle''), example_server) \<and>
   handle (Request ''GET'' ''/parameters'' (Pickle [])) example_server
     = Some (Response 500 None, example_server)"
  using example_server_up route_parameters_raises [OF example_server_free]
  by (simp add: handle_def to_response_def)

lemma update_parameters_keeps_model:
  "update_parameters d s = Some (r, s') \<Longrightarrow> master_model s' = master_model s"
  by (auto simp: update_parameters_def with_mutex_def Let_def split: sum.splits if_splits)

text \<open>
  Claim C2. The specification says that a Fetch right after a Submit returns the
  parameters that the Submit produced. On the example server with parameters
  \<open>[[1], [2]]\<close> and the additive rule, the Submit of \<open>[[1/2], [-1/2]]\<close> binds
  \<^verbatim>\<open>self.weights\<close> to \<open>[[3/2], [3/2]]\<close>; the Fetch that follows raises \<^verbatim>\<open>NameError\<close>, and
  the value it was about to serialise, \<^verbatim>\<open>self.master_model.get_weights()\<close>, is still
  \<open>[[1], [2]]\<close>.
\<close>

theorem fetch_after_submit_example:
  "update_parameters (Pickle [[1/2], [-1/2]]) example_server
     = Some (Inr ReturnsNone, example_server\<lparr>weights := [[3/2], [3/2]]\<rparr>) \<and>
   route_parameters (example_server\<lparr>weights := [[3/2], [3/2]]\<rparr>)
     = Some (Inl (NameError ''picle''), example_server\<lparr>weights := [[3/2], [3/2]]\<rparr>) \<and>
   get_weights (master_model (example_server\<lparr>weights := [[3/2], [3/2]]\<rparr>)) = [[1], [2]]"
proof -
  have free: "\<not> mutex (example_server\<lparr>weights := [[3/2], [3/2]]\<rparr>)"
    using example_server_free by simp
  have upd: "get_updates (optimizer example_server) (weights example_server) [[1/2], [-1/2]]
               (km_constraints (master_model example_server)) = Inr [[3/2], [3/2]]"
    by (simp add: example_server_def service_def start_server_def DistributedModel_init_def
          additive_rule_def add_params_def shapes_def get_weights_def example_model_def)
  have model: "get_weights (master_model example_server) = [[1], [2]]"
    by (simp add: example_server_def service_def start_server_def DistributedModel_init_def
          get_weights_def example_model_def)
  show ?thesis
    using update_parameters_applies [OF example_server_free _ upd, of "Pickle [[1/2], [-1/2]]"]
      route_parameters_raises [OF free] model
    by simp
qed




text \<open>
  Claim C3. The specification says that, with an additive update rule, submitting the
  delta \<open>[[1/2], [-1/2]]\<close> against the parameters \<open>[[1], [2]]\<close> makes the Fetch that
  follows return \<open>[[3/2], [3/2]]\<close>. On the example server the Submit request stores
  \<open>[[3/2], [3/2]]\<close> in \<^verbatim>\<open>self.weights\<close> (and is answered with status 500, the view
  returning \<^verbatim>\<open>None\<close>); the Fetch request that follows is answered with status 500 and
  no body.
\<close>

theorem end_to_end_fetch_returns_nothing:
  "handle (Request ''POST'' ''/update'' (Pickle [[1/2], [-1/2]])) example_server
     = Some (Response 500 None, example_server\<lparr>weights := [[3/2], [3/2]]\<rparr>) \<and>
   handle (Request ''GET'' ''/parameters'' (Pickle []))
       (example_server\<lparr>weights := [[3/2], [3/2]]\<rparr>)
     = Some (Response 500 None, example_server\<lparr>weights := [[3/2], [3/2]]\<rparr>)"
proof -
  have free: "\<not> mutex (example_server\<lparr>weights := [[3/2], [3/2]]\<rparr>)"
    using example_server_free by simp
  have upd: "get_updates (optimizer example_server) (weights example_server) [[1/2], [-1/2]]
               (km_constraints (master_model example_server)) = Inr [[3/2], [3/2]]"
    by (simp add: example_server_def service_def start_server_def DistributedModel_init_def
          additive_rule_def add_params_def shapes_def get_weights_def example_model_def)
  show ?thesis
    using update_parameters_applies [OF example_server_free _ upd, of "Pickle [[1/2], [-1/2]]"]
      route_parameters_raises [OF free]
    by (simp add: handle_def to_response_def)
qed

section \<open>Attributes that no method binds\<close>

lemma after_call_other_attrs: "other_attrs (after_call c s) = other_attrs s"
  by (cases c)
     (auto simp: service_def start_server_def stop_server_def route_parameters_def
        update_parameters_def with_mutex_def Let_def
        split: option.splits sum.splits prod.splits if_splits)

lemma fold_after_call_other_attrs: "other_attrs (fold after_call cs s) = other_attrs s"
  by (induction cs arbitrary: s) (simp_all add: after_call_other_attrs)

lemma SparkModel_train_other_attrs:
  "other_attrs (fst (snd (SparkModel_train env p s w))) = other_attrs s"
  by (auto simp: SparkModel_train_def SparkModel_train'_def start_server_def stop_server_def
        Let_def split: option.splits sum.splits prod.splits if_splits)

lemma after_spark_call_other_attrs:
  "other_attrs (fst (after_spark_call c sw)) = other_attrs (fst sw)"
  by (cases c; cases sw) (simp_all add: after_call_other_attrs SparkModel_train_other_attrs)

lemma fold_after_spark_call_other_attrs:
  "other_attrs (fst (fold after_spark_call cs sw)) = other_attrs (fst sw)"
  by (induction cs arbitrary: sw) (simp_all add: after_spark_call_other_attrs)

lemma get_config_unbound:
  "other_attrs s = [] \<Longrightarrow> get_config s = Inl (AttributeError ''mode'')"
  by (simp add: get_config_def getattr_other_def)

text \<open>
  Claim C10. On an object built by the constructor of \<^verbatim>\<open>DistributedModel\<close> or of
  \<^verbatim>\<open>SparkModel\<close>, after any sequence of calls of the methods of its class,
  \<^verbatim>\<open>get_config\<close> raises \<^verbatim>\<open>AttributeError\<close> for \<^verbatim>\<open>mode\<close>: no constructor and no method
  binds that attribute.
\<close>

theorem get_config_raises_attribute_error:
  "get_config (fold after_call cs (DistributedModel_init host km opt port))
     = Inl (AttributeError ''mode'') \<and>
   get_config (fst (fold after_spark_call scs (SparkModel_init host sc rdd km opt nw port, w)))
     = Inl (AttributeError ''mode'')"
  by (simp add: get_config_unbound fold_after_call_other_attrs
        fold_after_spark_call_other_attrs DistributedModel_init_def SparkModel_init_def
        distributed_model.extend_def)

section \<open>The coordinator\<close>

lemma coordinator_train_raises:
  "map_of (other_attrs self) ''loss'' = None \<Longrightarrow>
   repartition env (num_workers self) (dataset_rdd self) = Inr rdd \<Longrightarrow>
   SparkModel_train env p self w =
     (Inl (AttributeError ''loss''), (start_server self)\<lparr>dataset_rdd := rdd\<rparr>, w)"
  by (simp add: SparkModel_train_def SparkModel_train'_def start_server_def getattr_other_def
        Let_def)

text \<open>
  Claim C9. The specification says that \<^verbatim>\<open>train\<close> of the coordinator starts the server,
  repartitions, runs a worker on every partition, fetches the final parameters,
  installs them when there are any, and stops the server. On the example coordinator,
  built by the constructor, \<^verbatim>\<open>train\<close> starts the server, repartitions and then raises
  \<^verbatim>\<open>AttributeError\<close> for \<^verbatim>\<open>loss\<close> while it builds the worker: the log stays empty (no
  worker has run, nothing was fetched), the model keeps its parameters, and the server
  process is left running.
\<close>

theorem coordinator_train_example:
  "SparkModel_train example_env example_config example_spark_model ([[1], [2]], [])
     = (Inl (AttributeError ''loss''),
        example_spark_model\<lparr>server := Some (Process True)\<rparr>,
        ([[1], [2]], []))"
  by (simp add: SparkModel_train_def SparkModel_train'_def start_server_def getattr_other_def
        Let_def example_spark_model_def SparkModel_init_def DistributedModel_init_def
        distributed_model.extend_def example_env_def)

section \<open>The worker\<close>

lemma train_setup_raises: "train_setup env self x_train = Inl (NameError ''json_model'')"
  by (simp add: train_setup_def bind_e_def load_global_json_model)

lemma train_nonempty_raises:
  "np_size (map fst d) \<noteq> 0 \<Longrightarrow> train env self d w = (Inl (NameError ''json_model''), w)"
  by (simp add: train_def bnd_def lift_def ret_def load_global_tee train_setup_raises Let_def)

lemma train_world_unchanged: "snd (train env self d w) = w"
  by (simp add: train_def bnd_def lift_def ret_def load_global_tee train_setup_raises Let_def)

lemma train_policy_constructed:
  "train_policy env (SparkWorker_init j opt loss cfg f url) x y l w
     = (Inl (AttributeError ''frequency''), w)"
  by (simp add: train_policy_def bnd_def lift_def getattr_other_def SparkWorker_init_def)

lemma example_partition_size: "np_size (map fst example_partition) \<noteq> 0"
  by (simp add: example_partition_def np_size_def)

text \<open>
  Claim C5. On an empty partition \<^verbatim>\<open>train\<close> returns normally, yields no item and leaves
  the network and the log as they were: no Fetch and no Submit is performed, whatever
  the worker, the collaborators and the state of the network.
\<close>

theorem empty_partition_is_noop: "train env self [] w = (Inr [], w)"
  by (simp add: train_def bnd_def lift_def ret_def load_global_tee np_size_def)

text \<open>
  Claim C4. The specification says that on every non-empty partition the worker
  fetches, trains and submits for every batch of every epoch. On the example partition
  of two records, a worker built by the constructor for the frequency \<^verbatim>\<open>'epoch'\<close>, two
  epochs and batch size 1 raises \<^verbatim>\<open>NameError\<close> for \<^verbatim>\<open>json_model\<close> (line 155) with the
  network and the log untouched: nothing is fetched, trained or submitted. No run of
  \<^verbatim>\<open>train\<close>, on any partition and for any worker, changes the network or the log.
\<close>

theorem worker_train_raises_example:
  "example_partition \<noteq> [] \<and>
   train example_env (example_worker (PStr ''epoch'')) example_partition ([[1], [2]], [])
     = (Inl (NameError ''json_model''), ([[1], [2]], [])) \<and>
   snd (train env self d w) = w"
proof (intro conjI)
  show "example_partition \<noteq> []"
    by (simp add: example_partition_def)
  show "train example_env (example_worker (PStr ''epoch'')) example_partition ([[1], [2]], [])
     = (Inl (NameError ''json_model''), ([[1], [2]], []))"
    by (rule train_nonempty_raises [OF example_partition_size])
  show "snd (train env self d w) = w"
    by (rule train_world_unchanged)
qed




end
